theory Spec2Isabelle
  imports Complex_Main "HOL-Library.Word"
begin

section \<open>Values of the producer\<close>

text \<open>
  The module \<^verbatim>\<open>producers/json_producer_ruiz.py\<close> replays the records of a JSON file to
  a Kafka topic.  A Python \<^verbatim>\<open>str\<close> of a record is a sequence of Unicode code points, a
  \<^verbatim>\<open>bytes\<close> value a sequence of octets.  So is every \<^verbatim>\<open>str\<close> that comes from the
  environment, the topic among them.  Names of environment variables and path components
  are plain \<^typ>\<open>string\<close>s.  A Python \<^verbatim>\<open>float\<close> is carried as its IEEE-754 bit pattern; the
  model never computes with one.
\<close>

type_synonym ustr = "nat list"
type_synonym bytes = "8 word list"
type_synonym path = "string list"

datatype json =
    JNull
  | JBool bool
  | JInt int
  | JFloat "64 word"
  | JStr ustr
  | JArr "json list"
  | JObj "(ustr \<times> json) list"

text \<open>
  The exceptions that occur.  \<open>KeyboardInterrupt\<close> and \<open>SystemExit\<close> derive from
  \<^verbatim>\<open>BaseException\<close> only; all others are subclasses of \<^verbatim>\<open>Exception\<close>.
  \<open>OtherException\<close> stands for any further subclass of \<^verbatim>\<open>Exception\<close>, by its name.
\<close>

datatype exn =
    KeyboardInterrupt
  | SystemExit nat
  | FileNotFoundError
  | JSONDecodeError
  | ValueError string
  | ZeroDivisionError
  | OtherException string

fun is_Exception :: "exn \<Rightarrow> bool" where
  "is_Exception KeyboardInterrupt = False"
| "is_Exception (SystemExit c) = False"
| "is_Exception e = True"

text \<open>The result of calling an external collaborator that returns nothing of interest.\<close>

datatype outcome = Returns | Raises exn

text \<open>What \<^verbatim>\<open>open\<close> followed by \<^verbatim>\<open>json.load\<close> gives: the decoded root, or an exception.\<close>

datatype file_read = Decoded json | ReadError exn

text \<open>The events of the logger, with the values their messages interpolate.\<close>

datatype log_event =
    Info_START
  | Info_topic ustr
  | Info_interval int
  | Error_data_file_not_found path
  | Error_producer_failed
  | Error_topic_failed ustr exn
  | Info_starting ustr
  | Info_sent nat ustr rat json
  | Info_processed nat rat rat
  | Warning_interrupted
  | Error_production exn
  | Info_closed
  | Info_END
  | Error_file_not_found path
  | Error_invalid_json path exn
  | Error_unexpected exn

section \<open>The world outside the module\<close>

text \<open>
  Everything the module observes: the process environment (after \<^verbatim>\<open>load_dotenv\<close>), the
  location \<^verbatim>\<open>__file__\<close> of the module, the file system, the helpers imported from
  \<^verbatim>\<open>utils.utils_producer\<close>, the producer object, \<^verbatim>\<open>time.sleep\<close> and \<^verbatim>\<open>time.time\<close>,
  and the text \<^verbatim>\<open>json.dumps\<close> writes for a float.  \<open>create_kafka_producer\<close> tells
  whether the factory, given the serializer, returns a producer (rather than \<^verbatim>\<open>None\<close>).
  A call that happens repeatedly is indexed by its number, counted from 0, so the file may
  change between two reads and a send may fail after earlier ones succeeded.
\<close>

record world =
  environ :: "string \<Rightarrow> ustr option"
  module_file :: path
  verify_services :: outcome
  path_exists :: "path \<Rightarrow> bool"
  read_file :: "nat \<Rightarrow> path \<Rightarrow> file_read"
  float_repr :: "64 word \<Rightarrow> ustr"
  create_kafka_producer :: "(json \<Rightarrow> exn + bytes) \<Rightarrow> bool"
  create_kafka_topic :: "ustr \<Rightarrow> outcome"
  producer_send :: "nat \<Rightarrow> outcome"
  time_sleep :: "nat \<Rightarrow> outcome"
  time_time :: "nat \<Rightarrow> rat"

section \<open>Configuration\<close>

text \<open>A \<^verbatim>\<open>str\<close> literal of the source, all of whose characters are ASCII, as code points.\<close>

definition ascii :: "string \<Rightarrow> ustr" where
  "ascii s = map of_char s"

text \<open>
  \<^verbatim>\<open>os.getenv(key, default)\<close>: the value of a variable of the environment is a \<^verbatim>\<open>str\<close>,
  the default is returned as it is.
\<close>

definition getenv :: "(string \<Rightarrow> ustr option) \<Rightarrow> string \<Rightarrow> 'a \<Rightarrow> ustr + 'a" where
  "getenv env key dflt = (case env key of Some v \<Rightarrow> Inl v | None \<Rightarrow> Inr dflt)"

definition get_kafka_topic :: "(string \<Rightarrow> ustr option) \<Rightarrow> ustr" where
  "get_kafka_topic env =
     (case getenv env ''BUZZ_TOPIC'' (ascii ''unknown_topic'') of Inl v \<Rightarrow> v | Inr d \<Rightarrow> d)"

text \<open>
  \<^verbatim>\<open>int(s)\<close> on a \<^verbatim>\<open>str\<close>, as CPython 3.11 computes it.  First the text is made ASCII
  (\<^verbatim>\<open>_PyUnicode_TransformDecimalAndSpaceToASCII\<close>): a code point below 127 is kept, a
  Unicode whitespace character becomes a blank, a Unicode decimal digit becomes its ASCII
  digit, and at the first other character the text is cut off after a \<^verbatim>\<open>?\<close>.  The
  whitespace characters are those of \<^verbatim>\<open>str.isspace\<close>; the decimal digits are the characters
  of category Nd of Unicode 14.0, which come in runs of ten from a zero.
\<close>

definition is_unicode_space :: "nat \<Rightarrow> bool" where
  "is_unicode_space c =
     (c \<in> set [9, 10, 11, 12, 13, 28, 29, 30, 31, 32, 133, 160, 5760, 8232, 8233, 8239,
                8287, 12288] \<or> (8192 \<le> c \<and> c \<le> 8202))"

definition decimal_zeros :: "nat list" where
  "decimal_zeros =
     [48, 1632, 1776, 1984, 2406, 2534, 2662, 2790, 2918, 3046, 3174, 3302, 3430, 3558,
      3664, 3792, 3872, 4160, 4240, 6112, 6160, 6470, 6608, 6784, 6800, 6992, 7088, 7232,
      7248, 42528, 43216, 43264, 43472, 43504, 43600, 44016, 65296, 66720, 68912, 69734,
      69872, 69942, 70096, 70384, 70736, 70864, 71248, 71360, 71472, 71904, 72016, 72784,
      73040, 73120, 92768, 92864, 93008, 120782, 120792, 120802, 120812, 120822, 123200,
      123632, 125264, 130032]"

definition to_decimal :: "nat \<Rightarrow> nat option" where
  "to_decimal c = map_option (\<lambda>z. c - z) (find (\<lambda>z. z \<le> c \<and> c < z + 10) decimal_zeros)"

fun transform_decimal_and_space_to_ascii :: "ustr \<Rightarrow> ustr" where
  "transform_decimal_and_space_to_ascii [] = []"
| "transform_decimal_and_space_to_ascii (ch # rest) =
     (if ch < 127 then ch # transform_decimal_and_space_to_ascii rest
      else if is_unicode_space ch then 32 # transform_decimal_and_space_to_ascii rest
      else (case to_decimal ch of
              None \<Rightarrow> [63]
            | Some decimal \<Rightarrow> (48 + decimal) # transform_decimal_and_space_to_ascii rest))"

text \<open>
  The ASCII text is then read in base 10 (\<^verbatim>\<open>PyLong_FromString\<close>): leading whitespace, one
  optional sign, digits where single underscores may stand between two digits, trailing
  whitespace, and nothing else.  Whitespace is here what \<^verbatim>\<open>Py_ISSPACE\<close> accepts.  The scan
  of the digits stops at the first character that is neither a digit nor an underscore and
  fails at a second underscore in a row; it gives the last character scanned, the number
  of digits, their value and the rest of the text.
\<close>

definition is_space :: "nat \<Rightarrow> bool" where
  "is_space c = (c \<in> set [9, 10, 11, 12, 13, 32])"

definition is_digit :: "nat \<Rightarrow> bool" where
  "is_digit c = (48 \<le> c \<and> c \<le> 57)"

fun scan :: "nat \<Rightarrow> nat \<Rightarrow> nat \<Rightarrow> ustr \<Rightarrow> (nat \<times> nat \<times> nat \<times> ustr) option" where
  "scan prev digits z [] = Some (prev, digits, z, [])"
| "scan prev digits z (c # cs) =
     (if c = 95 then (if prev = 95 then None else scan 95 digits z cs)
      else if is_digit c then scan c (Suc digits) (10 * z + (c - 48)) cs
      else Some (prev, digits, z, c # cs))"

text \<open>
  A text of more than \<^verbatim>\<open>sys.get_int_max_str_digits()\<close> digits is refused; the limit has its
  default, 4300, and is looked at for more than 640 digits only.  Both failures of \<^verbatim>\<open>int\<close> are
  a \<^verbatim>\<open>ValueError\<close>, which is carried with the fixed part of its message.
\<close>

definition max_str_digits :: nat where
  "max_str_digits = 4300"

definition invalid_literal :: exn where
  "invalid_literal = ValueError ''invalid literal for int() with base 10''"

definition exceeds_limit :: exn where
  "exceeds_limit = ValueError ''Exceeds the limit for integer string conversion''"

definition py_long_from_string :: "ustr \<Rightarrow> exn + int" where
  "py_long_from_string str =
     (let s = dropWhile is_space str;
          sign = (if take 1 s = [45] then - 1 else 1 :: int);
          s = (if take 1 s = [43] \<or> take 1 s = [45] then drop 1 s else s)
      in if take 1 s = [95] then Inl invalid_literal
         else (case scan 0 0 0 s of
                 None \<Rightarrow> Inl invalid_literal
               | Some (prev, digits, z, rest) \<Rightarrow>
                   if prev = 95 then Inl invalid_literal
                   else if 640 < digits \<and> 0 < max_str_digits \<and> max_str_digits < digits
                   then Inl exceeds_limit
                   else if digits = 0 then Inl invalid_literal
                   else if dropWhile is_space rest \<noteq> [] then Inl invalid_literal
                   else Inr (sign * int z)))"

definition py_int :: "ustr \<Rightarrow> exn + int" where
  "py_int u = py_long_from_string (transform_decimal_and_space_to_ascii u)"

definition get_message_interval :: "(string \<Rightarrow> ustr option) \<Rightarrow> exn + int" where
  "get_message_interval env =
     (case getenv env ''BUZZ_INTERVAL_SECONDS'' (1 :: int) of
        Inl v \<Rightarrow> py_int v
      | Inr d \<Rightarrow> Inr d)"

section \<open>The data file\<close>

definition parent :: "path \<Rightarrow> path" where
  "parent p = butlast p"

definition joinpath :: "path \<Rightarrow> string \<Rightarrow> path" where
  "joinpath p c = p @ [c]"

definition PROJECT_ROOT :: "world \<Rightarrow> path" where
  "PROJECT_ROOT w = parent (parent (module_file w))"

definition DATA_FOLDER :: "world \<Rightarrow> path" where
  "DATA_FOLDER w = joinpath (PROJECT_ROOT w) ''data''"

definition DATA_FILE :: "world \<Rightarrow> path" where
  "DATA_FILE w = joinpath (DATA_FOLDER w) ''buzz.json''"

section \<open>The record generator\<close>

text \<open>
  A suspended generator object: how often it has opened the file, and the entries of the
  list it is iterating that it has not yielded yet.  A new generator has opened nothing.
\<close>

record gen_state =
  opens :: nat
  pending :: "json list"

definition gen_start :: gen_state where
  "gen_start = \<lparr>opens = 0, pending = []\<rparr>"

text \<open>
  Resuming the generator has one of three results: it yields an entry and suspends, it
  raises, or it has gone once around \<^verbatim>\<open>while True\<close> without reaching a \<^verbatim>\<open>yield\<close>
  (the list was empty) and is about to open the file again.
\<close>

datatype gen_event = Yield json gen_state | Turn gen_state | Raise exn "log_event list"

fun type_name :: "json \<Rightarrow> string" where
  "type_name JNull = ''NoneType''"
| "type_name (JBool b) = ''bool''"
| "type_name (JInt i) = ''int''"
| "type_name (JFloat f) = ''float''"
| "type_name (JStr s) = ''str''"
| "type_name (JArr xs) = ''list''"
| "type_name (JObj kvs) = ''dict''"

text \<open>\<^verbatim>\<open>isinstance(json_data, list)\<close>.\<close>

fun is_list :: "json \<Rightarrow> bool" where
  "is_list (JArr xs) = True"
| "is_list j = False"

text \<open>The three \<^verbatim>\<open>except\<close> clauses of the generator, tried in the order of the source.\<close>

fun gen_except :: "path \<Rightarrow> exn \<Rightarrow> gen_event" where
  "gen_except file_path FileNotFoundError =
     Raise (SystemExit 1) [Error_file_not_found file_path]"
| "gen_except file_path JSONDecodeError =
     Raise (SystemExit 2) [Error_invalid_json file_path JSONDecodeError]"
| "gen_except file_path e =
     (if is_Exception e then Raise (SystemExit 3) [Error_unexpected e] else Raise e [])"

definition generate_messages :: "world \<Rightarrow> path \<Rightarrow> gen_state \<Rightarrow> gen_event" where
  "generate_messages w file_path g =
     (case pending g of
        buzz_entry # rest \<Rightarrow> Yield buzz_entry (g\<lparr>pending := rest\<rparr>)
      | [] \<Rightarrow>
          (case read_file w (opens g) (DATA_FILE w) of
             ReadError e \<Rightarrow> gen_except file_path e
           | Decoded json_data \<Rightarrow>
               (case json_data of
                  JArr [] \<Rightarrow> Turn \<lparr>opens = Suc (opens g), pending = []\<rparr>
                | JArr (buzz_entry # rest) \<Rightarrow>
                    Yield buzz_entry \<lparr>opens = Suc (opens g), pending = rest\<rparr>
                | not_a_list \<Rightarrow>
                    gen_except file_path
                      (ValueError (''Expected a list of JSON objects, got <class ''
                         @ [CHR 0x27] @ type_name json_data @ [CHR 0x27] @ ''>.'')))))"

text \<open>
  The first \<open>k\<close> items of the generator (\<^verbatim>\<open>itertools.islice\<close>), giving up after \<open>fuel\<close>
  resumptions: the items obtained, and how the generator was left.
\<close>

datatype gen_end = Suspended gen_state | Spinning gen_state | Exited exn "log_event list"

fun gen_take :: "nat \<Rightarrow> nat \<Rightarrow> world \<Rightarrow> path \<Rightarrow> gen_state \<Rightarrow> json list \<times> gen_end" where
  "gen_take fuel 0 w file_path g = ([], Suspended g)"
| "gen_take 0 (Suc k) w file_path g = ([], Spinning g)"
| "gen_take (Suc fuel) (Suc k) w file_path g =
     (case generate_messages w file_path g of
        Yield x g' \<Rightarrow> (x # fst (gen_take fuel k w file_path g'), snd (gen_take fuel k w file_path g'))
      | Turn g' \<Rightarrow> gen_take fuel (Suc k) w file_path g'
      | Raise e ls \<Rightarrow> ([], Exited e ls))"

section \<open>The value serializer\<close>

text \<open>
  \<^verbatim>\<open>lambda x: json.dumps(x).encode("utf-8")\<close>.  \<^verbatim>\<open>json.dumps\<close> runs with its defaults:
  \<^verbatim>\<open>ensure_ascii=True\<close>, separators \<^verbatim>\<open>", "\<close> and \<^verbatim>\<open>": "\<close>.
\<close>

definition hexdigit :: "nat \<Rightarrow> nat" where
  "hexdigit d = (if d < 10 then 48 + d else 87 + d)"

definition hex4 :: "nat \<Rightarrow> ustr" where
  "hex4 n = [hexdigit ((n div 4096) mod 16), hexdigit ((n div 256) mod 16),
             hexdigit ((n div 16) mod 16), hexdigit (n mod 16)]"

definition escape_char :: "nat \<Rightarrow> ustr" where
  "escape_char c =
     (if c = 92 then [92, 92]
      else if c = 34 then [92, 34]
      else if c = 8 then [92, 98]
      else if c = 12 then [92, 102]
      else if c = 10 then [92, 110]
      else if c = 13 then [92, 114]
      else if c = 9 then [92, 116]
      else if 32 \<le> c \<and> c \<le> 126 then [c]
      else if c < 65536 then [92, 117] @ hex4 c
      else (let n = c - 65536;
                s1 = 55296 + (n div 1024) mod 1024;
                s2 = 56320 + n mod 1024
            in [92, 117] @ hex4 s1 @ [92, 117] @ hex4 s2))"

definition encode_basestring_ascii :: "ustr \<Rightarrow> ustr" where
  "encode_basestring_ascii s = [34] @ concat (map escape_char s) @ [34]"

fun show_nat :: "nat \<Rightarrow> ustr" where
  "show_nat n = (if n < 10 then [48 + n] else show_nat (n div 10) @ [48 + n mod 10])"

definition show_int :: "int \<Rightarrow> ustr" where
  "show_int i = (if i < 0 then 45 # show_nat (nat (- i)) else show_nat (nat i))"

fun join :: "ustr \<Rightarrow> ustr list \<Rightarrow> ustr" where
  "join sep [] = []"
| "join sep [x] = x"
| "join sep (x # y # ys) = x @ sep @ join sep (y # ys)"

fun json_dumps :: "(64 word \<Rightarrow> ustr) \<Rightarrow> json \<Rightarrow> ustr" where
  "json_dumps floatstr JNull = ascii ''null''"
| "json_dumps floatstr (JBool b) = (if b then ascii ''true'' else ascii ''false'')"
| "json_dumps floatstr (JInt i) = show_int i"
| "json_dumps floatstr (JFloat f) = floatstr f"
| "json_dumps floatstr (JStr s) = encode_basestring_ascii s"
| "json_dumps floatstr (JArr xs) =
     ascii ''['' @ join (ascii '', '') (map (json_dumps floatstr) xs) @ ascii '']''"
| "json_dumps floatstr (JObj kvs) =
     ascii ''{'' @
     join (ascii '', '')
       (map (\<lambda>(k, v). encode_basestring_ascii k @ ascii '': '' @ json_dumps floatstr v) kvs)
     @ ascii ''}''"

text \<open>
  \<^verbatim>\<open>str.encode("utf-8")\<close>: one to four octets for a code point; a surrogate cannot be
  encoded and raises \<^verbatim>\<open>UnicodeEncodeError\<close>.
\<close>

definition utf8_char :: "nat \<Rightarrow> exn + bytes" where
  "utf8_char c =
     (if c < 128 then Inr [of_nat c]
      else if c < 2048 then Inr [of_nat (192 + c div 64), of_nat (128 + c mod 64)]
      else if 55296 \<le> c \<and> c \<le> 57343 then Inl (OtherException ''UnicodeEncodeError'')
      else if c < 65536
      then Inr [of_nat (224 + c div 4096), of_nat (128 + (c div 64) mod 64),
                of_nat (128 + c mod 64)]
      else Inr [of_nat (240 + c div 262144), of_nat (128 + (c div 4096) mod 64),
                of_nat (128 + (c div 64) mod 64), of_nat (128 + c mod 64)])"

fun encode_utf8 :: "ustr \<Rightarrow> exn + bytes" where
  "encode_utf8 [] = Inr []"
| "encode_utf8 (c # cs) =
     (case utf8_char c of
        Inl e \<Rightarrow> Inl e
      | Inr bs \<Rightarrow> (case encode_utf8 cs of Inl e \<Rightarrow> Inl e | Inr r \<Rightarrow> Inr (bs @ r)))"

definition value_serializer :: "(64 word \<Rightarrow> ustr) \<Rightarrow> json \<Rightarrow> exn + bytes" where
  "value_serializer floatstr x = encode_utf8 (json_dumps floatstr x)"

section \<open>The driver\<close>

text \<open>
  The variables of \<^verbatim>\<open>main\<close> once it streams, together with what it has done to the
  outside so far: the calls of \<^verbatim>\<open>producer.send\<close> (topic and value, in order), the number
  of calls of \<^verbatim>\<open>time.time\<close>, \<^verbatim>\<open>time.sleep\<close> and \<^verbatim>\<open>producer.close\<close>, and the log.
\<close>

record driver_state =
  gen :: gen_state
  message_count :: nat
  start_time :: rat
  ticks :: nat
  sent :: "(ustr \<times> json) list"
  slept :: nat
  closes :: nat
  logs :: "log_event list"

definition initial :: driver_state where
  "initial = \<lparr>gen = gen_start, message_count = 0, start_time = 0, ticks = 0, sent = [],
               slept = 0, closes = 0, logs = []\<rparr>"

definition log :: "log_event \<Rightarrow> driver_state \<Rightarrow> driver_state" where
  "log ev st = st\<lparr>logs := logs st @ [ev]\<rparr>"

text \<open>One pass through the loop either completes or leaves the loop by an exception.\<close>

datatype turn = Next driver_state | Raised exn driver_state

text \<open>
  A run of \<^verbatim>\<open>main\<close>, observed after a number of passes: still in the loop, or ended by
  returning (\<open>None\<close>, exit code 0) or by an exception that leaves \<^verbatim>\<open>main\<close>
  (\<open>SystemExit c\<close> is exit code \<open>c\<close>).
\<close>

datatype run = Running driver_state | Ended driver_state "exn option"

text \<open>
  \<^verbatim>\<open>time.sleep\<close> converts the seconds to nanoseconds in 64 bits, which raises
  \<^verbatim>\<open>OverflowError\<close> beyond 9223372036 seconds either way, and refuses a negative length
  with \<^verbatim>\<open>ValueError\<close>.
\<close>

definition sleep :: "world \<Rightarrow> int \<Rightarrow> driver_state \<Rightarrow> turn" where
  "sleep w interval_secs st =
     (if interval_secs < - 9223372036 \<or> 9223372036 < interval_secs
      then Raised (OtherException ''OverflowError'') st
      else if interval_secs < 0
      then Raised (ValueError ''sleep length must be non-negative'') st
      else (case time_sleep w (slept st) of
              Returns \<Rightarrow> Next (st\<lparr>slept := Suc (slept st)\<rparr>)
            | Raises e \<Rightarrow> Raised e (st\<lparr>slept := Suc (slept st)\<rparr>)))"

text \<open>The body of the \<^verbatim>\<open>for\<close> loop for one yielded record.\<close>

definition loop_body :: "world \<Rightarrow> ustr \<Rightarrow> int \<Rightarrow> json \<Rightarrow> driver_state \<Rightarrow> turn" where
  "loop_body w topic interval_secs message_dict st =
     (let msg_start_time = time_time w (ticks st);
          st1 = st\<lparr>ticks := Suc (ticks st), sent := sent st @ [(topic, message_dict)]\<rparr>
      in case producer_send w (length (sent st)) of
           Raises e \<Rightarrow> Raised e st1
         | Returns \<Rightarrow>
             (let msg_end_time = time_time w (ticks st1);
                  count = Suc (message_count st1);
                  latency = msg_end_time - msg_start_time;
                  st2 = log (Info_sent count topic latency message_dict)
                          (st1\<lparr>ticks := Suc (ticks st1), message_count := count\<rparr>)
              in if count mod 10 = 0
                 then (let elapsed_time = msg_end_time - start_time st2
                       in if elapsed_time = 0 then Raised ZeroDivisionError st2
                          else sleep w interval_secs
                                 (log (Info_processed count elapsed_time
                                         (of_nat count / elapsed_time)) st2))
                 else sleep w interval_secs st2))"

text \<open>One resumption of the \<^verbatim>\<open>for\<close> statement: the generator is resumed, then the body runs.\<close>

definition for_turn :: "world \<Rightarrow> ustr \<Rightarrow> int \<Rightarrow> driver_state \<Rightarrow> turn" where
  "for_turn w topic interval_secs st =
     (case generate_messages w (DATA_FILE w) (gen st) of
        Yield message_dict g' \<Rightarrow> loop_body w topic interval_secs message_dict (st\<lparr>gen := g'\<rparr>)
      | Turn g' \<Rightarrow> Next (st\<lparr>gen := g'\<rparr>)
      | Raise e ls \<Rightarrow> Raised e (st\<lparr>logs := logs st @ ls\<rparr>))"

text \<open>
  The \<^verbatim>\<open>except\<close> clauses and the \<^verbatim>\<open>finally\<close> clause around the loop.  \<^verbatim>\<open>producer.close\<close>
  and the logger are taken to return.
\<close>

definition close :: "driver_state \<Rightarrow> driver_state" where
  "close st = log Info_closed (st\<lparr>closes := Suc (closes st)\<rparr>)"

definition shutdown :: "exn \<Rightarrow> driver_state \<Rightarrow> run" where
  "shutdown e st =
     (if e = KeyboardInterrupt
      then Ended (log Info_END (close (log Warning_interrupted st))) None
      else if is_Exception e
      then Ended (log Info_END (close (log (Error_production e) st))) None
      else Ended (close st) (Some e))"

fun main_loop :: "nat \<Rightarrow> world \<Rightarrow> ustr \<Rightarrow> int \<Rightarrow> driver_state \<Rightarrow> run" where
  "main_loop 0 w topic interval_secs st = Running st"
| "main_loop (Suc n) w topic interval_secs st =
     (case for_turn w topic interval_secs st of
        Next st' \<Rightarrow> main_loop n w topic interval_secs st'
      | Raised e st' \<Rightarrow> shutdown e st')"

text \<open>
  \<^verbatim>\<open>main\<close> up to the loop: either the run has ended, or the loop is entered with a topic,
  an interval and the first state.
\<close>

definition startup :: "world \<Rightarrow> run + ustr \<times> int \<times> driver_state" where
  "startup w =
     (let st0 = log Info_START initial
      in case verify_services w of
           Raises e \<Rightarrow> Inl (Ended st0 (Some e))
         | Returns \<Rightarrow>
             (let topic = get_kafka_topic (environ w);
                  st1 = log (Info_topic topic) st0
              in case get_message_interval (environ w) of
                   Inl e \<Rightarrow> Inl (Ended st1 (Some e))
                 | Inr interval_secs \<Rightarrow>
                     (let st2 = log (Info_interval interval_secs) st1
                      in if \<not> path_exists w (DATA_FILE w)
                         then Inl (Ended (log (Error_data_file_not_found (DATA_FILE w)) st2)
                                     (Some (SystemExit 1)))
                         else if \<not> create_kafka_producer w (value_serializer (float_repr w))
                         then Inl (Ended (log Error_producer_failed st2) (Some (SystemExit 3)))
                         else (case create_kafka_topic w topic of
                                 Raises e \<Rightarrow>
                                   if is_Exception e
                                   then Inl (Ended (log (Error_topic_failed topic e) st2)
                                               (Some (SystemExit 1)))
                                   else Inl (Ended st2 (Some e))
                               | Returns \<Rightarrow>
                                   Inr (topic, interval_secs,
                                        (log (Info_starting topic) st2)
                                          \<lparr>start_time := time_time w 0, ticks := 1\<rparr>)))))"

definition main :: "nat \<Rightarrow> world \<Rightarrow> run" where
  "main n w =
     (case startup w of
        Inl r \<Rightarrow> r
      | Inr (topic, interval_secs, st) \<Rightarrow> main_loop n w topic interval_secs st)"

text \<open>
  A resumption and the end of a run of the generator without the report the generator
  logged: what the caller of the generator can observe.
\<close>

fun event_of :: "gen_event \<Rightarrow> gen_event" where
  "event_of (Raise e ls) = Raise e []"
| "event_of ev = ev"

fun end_of :: "gen_end \<Rightarrow> gen_end" where
  "end_of (Exited e ls) = Exited e []"
| "end_of r = r"

text \<open>What a run has done, and the exception a resumption of the generator raises.\<close>

fun final :: "run \<Rightarrow> driver_state" where
  "final (Running st) = st"
| "final (Ended st e) = st"

fun raised :: "gen_event \<Rightarrow> exn option" where
  "raised (Raise e ls) = Some e"
| "raised ev = None"

text \<open>
  The throughput snapshots a run has logged: message count, elapsed time and throughput
  of every \<open>Info_processed\<close> event, in order.
\<close>

fun snapshot :: "log_event \<Rightarrow> (nat \<times> rat \<times> rat) option" where
  "snapshot (Info_processed count elapsed_time throughput) =
     Some (count, elapsed_time, throughput)"
| "snapshot ev = None"

definition snapshots :: "driver_state \<Rightarrow> (nat \<times> rat \<times> rat) list" where
  "snapshots st = List.map_filter snapshot (logs st)"

section \<open>Sample worlds\<close>

text \<open>
  A world where everything works: no environment variable is set, the data file holds
  \<^verbatim>\<open>[{"id": 1}, {"id": 2}, {"id": 3}]\<close>, every send and sleep returns, and the clock
  advances by one second per reading.  The other worlds differ from it in one respect.
\<close>

definition rec_id :: "int \<Rightarrow> json" where
  "rec_id n = JObj [(ascii ''id'', JInt n)]"

definition buzz_path :: path where
  "buzz_path = [''repo'', ''data'', ''buzz.json'']"

definition sample_world :: world where
  "sample_world =
     \<lparr>environ = (\<lambda>k. None),
      module_file = [''repo'', ''producers'', ''json_producer_ruiz.py''],
      verify_services = Returns,
      path_exists = (\<lambda>p. p = buzz_path),
      read_file = (\<lambda>k p. if p = buzz_path
                           then Decoded (JArr [rec_id 1, rec_id 2, rec_id 3])
                           else ReadError FileNotFoundError),
      float_repr = (\<lambda>f. ascii ''0.0''),
      create_kafka_producer = (\<lambda>serializer. True),
      create_kafka_topic = (\<lambda>topic. Returns),
      producer_send = (\<lambda>k. Returns),
      time_sleep = (\<lambda>k. Returns),
      time_time = (\<lambda>k. of_nat k)\<rparr>"

definition object_root_world :: world where
  "object_root_world =
     sample_world\<lparr>read_file := (\<lambda>k p. if p = buzz_path then Decoded (rec_id 1)
                                        else ReadError FileNotFoundError)\<rparr>"

definition unreadable_world :: world where
  "unreadable_world =
     sample_world\<lparr>read_file := (\<lambda>k p. ReadError (OtherException ''PermissionError''))\<rparr>"

definition no_file_world :: world where
  "no_file_world =
     sample_world\<lparr>path_exists := (\<lambda>p. False), read_file := (\<lambda>k p. ReadError FileNotFoundError)\<rparr>"

definition minus_five_env :: "string \<Rightarrow> ustr option" where
  "minus_five_env k = (if k = ''BUZZ_INTERVAL_SECONDS'' then Some (ascii ''-5'') else None)"

definition empty_list_world :: world where
  "empty_list_world =
     sample_world\<lparr>read_file := (\<lambda>k p. if p = buzz_path then Decoded (JArr [])
                                        else ReadError FileNotFoundError)\<rparr>"

definition other_path :: path where
  "other_path = [''tmp'', ''elsewhere.json'']"

definition other_files_world :: world where
  "other_files_world =
     sample_world\<lparr>read_file := (\<lambda>k p. if p = buzz_path
                                        then Decoded (JArr [rec_id 1, rec_id 2, rec_id 3])
                                        else Decoded (JArr []))\<rparr>"

definition stopped_clock_world :: world where
  "stopped_clock_world = sample_world\<lparr>time_time := (\<lambda>k. 1730000000)\<rparr>"


section \<open>Basic facts\<close>

lemma gen_take_zero: "gen_take fuel 0 w file_path g = ([], Suspended g)"
  by (cases fuel) simp_all

lemma DATA_FILE_sample [simp]:
  "module_file w = [''repo'', ''producers'', ''json_producer_ruiz.py''] \<Longrightarrow>
   DATA_FILE w = buzz_path"
  by (simp add: DATA_FILE_def DATA_FOLDER_def PROJECT_ROOT_def parent_def joinpath_def
      buzz_path_def)

lemma startup_Inr:
  assumes "startup w = Inr (topic, interval_secs, st)"
  shows "gen st = gen_start" and "message_count st = 0" and "sent st = []"
    and "closes st = 0" and "start_time st = time_time w 0"
    and "topic = get_kafka_topic (environ w)"
    and "get_message_interval (environ w) = Inr interval_secs"
  using assms
  by (auto simp: startup_def Let_def log_def initial_def
      split: outcome.splits sum.splits if_splits)

lemma generate_messages_not_list:
  assumes "pending g = []" and "read_file w (opens g) (DATA_FILE w) = Decoded json_data"
    and "\<not> is_list json_data"
  shows "generate_messages w file_path g =
     Raise (SystemExit 3)
       [Error_unexpected (ValueError (''Expected a list of JSON objects, got <class ''
          @ [CHR 0x27] @ type_name json_data @ [CHR 0x27] @ ''>.''))]"
  using assms by (cases json_data) (simp_all add: generate_messages_def)

lemmas sample_defs =
  sample_world_def get_kafka_topic_def getenv_def get_message_interval_def log_def
  initial_def gen_start_def rec_id_def shutdown_def close_def buzz_path_def
  DATA_FILE_def DATA_FOLDER_def PROJECT_ROOT_def parent_def joinpath_def

section \<open>A root that is not a list\<close>

text \<open>
  Claim C1, as amended.  When the decoded root of the data file is not a list, the
  generator yields no record and the process ends with exit code 3, the code of the
  generator's last \<^verbatim>\<open>except\<close> clause: the \<^verbatim>\<open>ValueError\<close> it raises for the root is no
  \<^verbatim>\<open>JSONDecodeError\<close>, so the clause with exit code 2 does not apply.  Nothing is sent
  and the producer is closed once.
\<close>

theorem non_sequence_root_exits_3:
  assumes "read_file w 0 (DATA_FILE w) = Decoded json_data" and "\<not> is_list json_data"
    and "startup w = Inr (topic, interval_secs, st)"
  shows "fst (gen_take (Suc fuel) (Suc k) w file_path gen_start) = [] \<and>
         (\<exists>ls. snd (gen_take (Suc fuel) (Suc k) w file_path gen_start)
                 = Exited (SystemExit 3) ls) \<and>
         (\<exists>st'. main (Suc n) w = Ended st' (Some (SystemExit 3)) \<and>
                 sent st' = [] \<and> closes st' = 1)"
proof -
  let ?ls = "[Error_unexpected (ValueError (''Expected a list of JSON objects, got <class ''
          @ [CHR 0x27] @ type_name json_data @ [CHR 0x27] @ ''>.''))]"
  have g: "generate_messages w p gen_start = Raise (SystemExit 3) ?ls" for p
    using assms(1,2) by (intro generate_messages_not_list) (simp_all add: gen_start_def)
  have "main (Suc n) w = shutdown (SystemExit 3) (st\<lparr>logs := logs st @ ?ls\<rparr>)"
    using assms(3) startup_Inr(1)[OF assms(3)] by (simp add: main_def for_turn_def g)
  then show ?thesis
    using startup_Inr(3,4)[OF assms(3)]
    by (simp add: g shutdown_def close_def log_def)
qed

theorem non_sequence_root_exits_3_witness:
  "read_file object_root_world 0 (DATA_FILE object_root_world) = Decoded (rec_id 1) \<and>
   \<not> is_list (rec_id 1) \<and>
   fst (gen_take 1 1 object_root_world buzz_path gen_start) = [] \<and>
   (\<exists>st'. main 1 object_root_world = Ended st' (Some (SystemExit 3)) \<and>
           sent st' = [] \<and> closes st' = 1)"
proof -
  have r: "read_file object_root_world 0 (DATA_FILE object_root_world) = Decoded (rec_id 1)"
    by (simp add: object_root_world_def sample_defs)
  have l: "\<not> is_list (rec_id 1)" by (simp add: rec_id_def)
  have s: "startup object_root_world = Inr (ascii ''unknown_topic'', 1,
      \<lparr>gen = gen_start, message_count = 0, start_time = 0, ticks = 1, sent = [],
       slept = 0, closes = 0,
       logs = [Info_START, Info_topic (ascii ''unknown_topic''), Info_interval 1,
               Info_starting (ascii ''unknown_topic'')]\<rparr>)"
    by (simp add: startup_def Let_def object_root_world_def sample_defs)
  show ?thesis
    using non_sequence_root_exits_3[OF r l s, of 0 0 buzz_path 0] r l by simp
qed

text \<open>
  Claim C1 as stated fails: with the root \<^verbatim>\<open>{"id": 1}\<close> the run ends by
  \<^verbatim>\<open>sys.exit(3)\<close>, not with exit code 2.
\<close>

theorem non_sequence_root_exit_code_counterexample:
  "main 1 object_root_world = Ended (final (main 1 object_root_world)) (Some (SystemExit 3)) \<and>
   SystemExit 3 \<noteq> SystemExit 2"
  by (simp add: main_def startup_def Let_def for_turn_def generate_messages_def
      object_root_world_def sample_defs)

section \<open>Exit codes of the generator\<close>

text \<open>
  Claim C6, as amended.  The failures of the generator map to three exit codes, not four:
  a missing file gives 1, content that does not parse gives 2, and both a decoded root that
  is not a list and any other exception give 3, the code of the last \<^verbatim>\<open>except\<close> clause.
\<close>

theorem source_failures_exit_codes:
  assumes "pending g = []"
  shows "(read_file w (opens g) (DATA_FILE w) = ReadError FileNotFoundError \<longrightarrow>
            raised (generate_messages w file_path g) = Some (SystemExit 1)) \<and>
         (read_file w (opens g) (DATA_FILE w) = ReadError JSONDecodeError \<longrightarrow>
            raised (generate_messages w file_path g) = Some (SystemExit 2)) \<and>
         (\<forall>json_data. read_file w (opens g) (DATA_FILE w) = Decoded json_data \<and>
              \<not> is_list json_data \<longrightarrow>
            raised (generate_messages w file_path g) = Some (SystemExit 3)) \<and>
         (\<forall>e. read_file w (opens g) (DATA_FILE w) = ReadError e \<and> is_Exception e \<and>
              e \<noteq> FileNotFoundError \<and> e \<noteq> JSONDecodeError \<longrightarrow>
            raised (generate_messages w file_path g) = Some (SystemExit 3))"
proof (intro conjI allI impI)
  fix e assume "read_file w (opens g) (DATA_FILE w) = ReadError e \<and> is_Exception e \<and>
              e \<noteq> FileNotFoundError \<and> e \<noteq> JSONDecodeError"
  then show "raised (generate_messages w file_path g) = Some (SystemExit 3)"
    using assms by (cases e) (simp_all add: generate_messages_def)
next
  fix json_data
  assume "read_file w (opens g) (DATA_FILE w) = Decoded json_data \<and> \<not> is_list json_data"
  then show "raised (generate_messages w file_path g) = Some (SystemExit 3)"
    using assms by (simp add: generate_messages_not_list)
qed (use assms in \<open>simp_all add: generate_messages_def\<close>)

theorem source_failures_exit_codes_witness:
  "pending gen_start = [] \<and>
   raised (generate_messages no_file_world buzz_path gen_start) = Some (SystemExit 1) \<and>
   raised (generate_messages object_root_world buzz_path gen_start) = Some (SystemExit 3) \<and>
   raised (generate_messages unreadable_world buzz_path gen_start) = Some (SystemExit 3)"
proof -
  have p: "pending gen_start = []" by (simp add: gen_start_def)
  have a: "read_file no_file_world (opens gen_start) (DATA_FILE no_file_world)
             = ReadError FileNotFoundError"
    by (simp add: no_file_world_def sample_defs)
  have b: "read_file object_root_world (opens gen_start) (DATA_FILE object_root_world)
             = Decoded (rec_id 1) \<and> \<not> is_list (rec_id 1)"
    by (simp add: object_root_world_def sample_defs)
  have c: "read_file unreadable_world (opens gen_start) (DATA_FILE unreadable_world)
             = ReadError (OtherException ''PermissionError'')"
    by (simp add: unreadable_world_def sample_defs)
  show ?thesis
    using source_failures_exit_codes[OF p, of no_file_world buzz_path]
      source_failures_exit_codes[OF p, of object_root_world buzz_path]
      source_failures_exit_codes[OF p, of unreadable_world buzz_path] p a b c
    by auto
qed

text \<open>
  Claim C6 as stated fails: a root that is not a list and a file that cannot be read
  (\<^verbatim>\<open>PermissionError\<close>) are different failures with the same exit condition.
\<close>

theorem source_failures_share_exit_code_counterexample:
  "raised (generate_messages object_root_world buzz_path gen_start) =
   raised (generate_messages unreadable_world buzz_path gen_start) \<and>
   read_file object_root_world 0 (DATA_FILE object_root_world) = Decoded (rec_id 1) \<and>
   read_file unreadable_world 0 (DATA_FILE unreadable_world)
     = ReadError (OtherException ''PermissionError'')"
  by (simp add: generate_messages_def object_root_world_def unreadable_world_def sample_defs)

section \<open>Configuration resolution\<close>

lemma py_long_from_string_cases:
  "(\<exists>i. py_long_from_string s = Inr i) \<or> (\<exists>m. py_long_from_string s = Inl (ValueError m))"
  by (simp add: py_long_from_string_def Let_def invalid_literal_def exceeds_limit_def
      split: option.splits prod.splits)

text \<open>
  Claim C7, as amended.  With \<^verbatim>\<open>BUZZ_TOPIC\<close> unset the topic is \<^verbatim>\<open>unknown_topic\<close>; with
  \<^verbatim>\<open>BUZZ_INTERVAL_SECONDS\<close> unset the interval is 1.  When the variable is set, resolution
  gives what \<^verbatim>\<open>int\<close> makes of its text: an integer or the \<^verbatim>\<open>ValueError\<close> of \<^verbatim>\<open>int\<close>.  The
  integer can be negative: for the text \<^verbatim>\<open>-5\<close> it is \<open>-5\<close>.
\<close>

theorem configuration_resolution:
  "(env ''BUZZ_TOPIC'' = None \<longrightarrow> get_kafka_topic env = ascii ''unknown_topic'') \<and>
   (env ''BUZZ_INTERVAL_SECONDS'' = None \<longrightarrow> get_message_interval env = Inr 1) \<and>
   (\<forall>v. env ''BUZZ_INTERVAL_SECONDS'' = Some v \<longrightarrow>
      get_message_interval env = py_int v \<and>
      ((\<exists>i. py_int v = Inr i) \<or> (\<exists>m. py_int v = Inl (ValueError m)))) \<and>
   (env ''BUZZ_INTERVAL_SECONDS'' = Some (ascii ''-5'') \<longrightarrow>
      get_message_interval env = Inr (- 5))"
proof -
  have five: "py_int (ascii ''-5'') = Inr (- 5)"
    by (simp add: py_int_def ascii_def py_long_from_string_def is_space_def is_digit_def)
  show ?thesis
    using py_long_from_string_cases five
    by (simp add: get_kafka_topic_def get_message_interval_def getenv_def py_int_def)
qed

theorem configuration_resolution_witness:
  "minus_five_env ''BUZZ_TOPIC'' = None \<and>
   get_kafka_topic minus_five_env = ascii ''unknown_topic'' \<and>
   get_message_interval (\<lambda>k. None) = Inr 1 \<and>
   minus_five_env ''BUZZ_INTERVAL_SECONDS'' = Some (ascii ''-5'') \<and>
   get_message_interval minus_five_env = py_int (ascii ''-5'') \<and>
   get_message_interval minus_five_env = Inr (- 5)"
proof -
  have e: "minus_five_env ''BUZZ_TOPIC'' = None"
    "minus_five_env ''BUZZ_INTERVAL_SECONDS'' = Some (ascii ''-5'')"
    by (simp_all add: minus_five_env_def)
  show ?thesis
    using configuration_resolution[of minus_five_env]
      configuration_resolution[of "\<lambda>k. None"] e
    by auto
qed

text \<open>
  Claim C7 as stated fails: with \<^verbatim>\<open>BUZZ_INTERVAL_SECONDS=-5\<close> the resolved interval is
  \<open>-5\<close>.
\<close>

theorem negative_interval_counterexample:
  "get_message_interval minus_five_env = Inr (- 5) \<and> (- 5 :: int) < 0"
  by (simp add: get_message_interval_def getenv_def minus_five_env_def py_int_def ascii_def
      py_long_from_string_def is_space_def is_digit_def)

section \<open>A missing data file\<close>

text \<open>
  Claim C4.  If the data file does not exist when \<^verbatim>\<open>main\<close> checks for it, the run ends by
  \<^verbatim>\<open>sys.exit(1)\<close> and \<^verbatim>\<open>producer.send\<close> has not been called (no producer has been
  created either).  The check is reached when \<^verbatim>\<open>verify_services\<close> returns and the interval
  resolves.
\<close>

theorem missing_data_file_exits_1:
  assumes "\<not> path_exists w (DATA_FILE w)" and "verify_services w = Returns"
    and "get_message_interval (environ w) = Inr interval_secs"
  shows "\<exists>st. main n w = Ended st (Some (SystemExit 1)) \<and> sent st = [] \<and> closes st = 0 \<and>
           logs st = [Info_START, Info_topic (get_kafka_topic (environ w)),
                      Info_interval interval_secs, Error_data_file_not_found (DATA_FILE w)]"
  using assms by (simp add: main_def startup_def Let_def log_def initial_def)

theorem missing_data_file_exits_1_witness:
  "\<not> path_exists no_file_world (DATA_FILE no_file_world) \<and>
   verify_services no_file_world = Returns \<and>
   get_message_interval (environ no_file_world) = Inr 1 \<and>
   (\<exists>st. main 5 no_file_world = Ended st (Some (SystemExit 1)) \<and> sent st = [] \<and> closes st = 0)"
proof -
  have a: "\<not> path_exists no_file_world (DATA_FILE no_file_world)"
    and b: "verify_services no_file_world = Returns"
    and c: "get_message_interval (environ no_file_world) = Inr 1"
    by (simp_all add: no_file_world_def sample_defs)
  show ?thesis
    using missing_data_file_exits_1[OF a b c, of 5] a b c by auto
qed

section \<open>Cycling through the file\<close>

lemma gen_take_cycle:
  assumes "\<forall>n. read_file w n (DATA_FILE w) = Decoded (JArr xs)" and "xs \<noteq> []"
  shows "pending g = drop j xs \<Longrightarrow> j \<le> length xs \<Longrightarrow> k \<le> fuel \<Longrightarrow>
         fst (gen_take fuel k w file_path g) = map (\<lambda>i. xs ! ((j + i) mod length xs)) [0..<k] \<and>
         (\<exists>g'. snd (gen_take fuel k w file_path g) = Suspended g' \<and>
               opens g' = opens g + (if k = 0 then 0 else (j + k - 1) div length xs))"
proof (induction k arbitrary: fuel g j)
  case 0
  then show ?case by (simp add: gen_take_zero)
next
  case (Suc k)
  then obtain f where fuel: "fuel = Suc f" and kf: "k \<le> f" by (cases fuel) auto
  let ?N = "length xs"
  have N: "0 < ?N" using assms(2) by (cases xs) simp_all
  show ?case
  proof (cases "j = ?N")
    case True
    obtain x rest where xs: "xs = x # rest" using assms(2) by (cases xs) auto
    let ?g = "\<lparr>opens = Suc (opens g), pending = rest\<rparr>"
    have step: "generate_messages w file_path g = Yield x ?g"
      using Suc.prems(1) True assms(1) xs by (simp add: generate_messages_def)
    have gt: "gen_take fuel (Suc k) w file_path g =
                (x # fst (gen_take f k w file_path ?g), snd (gen_take f k w file_path ?g))"
      by (simp add: fuel step)
    have p: "pending ?g = drop 1 xs" by (simp add: xs)
    have one: "1 \<le> ?N" using N by linarith
    from Suc.IH[OF p one kf] obtain g' where
      ys: "fst (gen_take f k w file_path ?g) = map (\<lambda>i. xs ! ((1 + i) mod ?N)) [0..<k]"
      and g': "snd (gen_take f k w file_path ?g) = Suspended g'"
      and o: "opens g' = opens ?g + (if k = 0 then 0 else (1 + k - 1) div ?N)"
      by blast
    have x0: "xs ! ((j + 0) mod ?N) = x" by (simp add: True xs)
    have h: "(j + Suc i) mod ?N = (1 + i) mod ?N" for i
      unfolding True by (metis add_Suc_right mod_add_self1 plus_1_eq_Suc)
    have m: "map (\<lambda>i. xs ! ((j + i) mod ?N)) [0..<Suc k]
             = x # map (\<lambda>i. xs ! ((1 + i) mod ?N)) [0..<k]"
      by (simp only: map_upt_Suc x0 h)
    have d: "(?N + k) div ?N = Suc (k div ?N)" using N by simp
    have o': "opens g' = opens g + (if Suc k = 0 then 0 else (j + Suc k - 1) div ?N)"
      using o d by (simp add: True)
    show ?thesis
      unfolding gt fst_conv snd_conv ys m using g' o' by blast
  next
    case False
    with Suc.prems(2) have jl: "j < ?N" by simp
    let ?g = "g\<lparr>pending := drop (Suc j) xs\<rparr>"
    have pg: "pending g = xs ! j # drop (Suc j) xs"
      using Suc.prems(1) jl by (simp add: Cons_nth_drop_Suc)
    have step: "generate_messages w file_path g = Yield (xs ! j) ?g"
      by (simp add: generate_messages_def pg)
    have gt: "gen_take fuel (Suc k) w file_path g =
                (xs ! j # fst (gen_take f k w file_path ?g), snd (gen_take f k w file_path ?g))"
      by (simp add: fuel step)
    have p: "pending ?g = drop (Suc j) xs" by simp
    have sj: "Suc j \<le> ?N" using jl by simp
    from Suc.IH[OF p sj kf] obtain g' where
      ys: "fst (gen_take f k w file_path ?g) = map (\<lambda>i. xs ! ((Suc j + i) mod ?N)) [0..<k]"
      and g': "snd (gen_take f k w file_path ?g) = Suspended g'"
      and o: "opens g' = opens ?g + (if k = 0 then 0 else (Suc j + k - 1) div ?N)"
      by blast
    have x0: "xs ! ((j + 0) mod ?N) = xs ! j" using jl by simp
    have h: "j + Suc i = Suc j + i" for i by simp
    have m: "map (\<lambda>i. xs ! ((j + i) mod ?N)) [0..<Suc k]
             = xs ! j # map (\<lambda>i. xs ! ((Suc j + i) mod ?N)) [0..<k]"
      by (simp only: map_upt_Suc x0 h)
    have o': "opens g' = opens g + (if Suc k = 0 then 0 else (j + Suc k - 1) div ?N)"
      using o jl by simp
    show ?thesis
      unfolding gt fst_conv snd_conv ys m using g' o' by blast
  qed
qed

text \<open>
  Claim C2.  For a file that holds a list \<open>xs\<close> of \<open>N \<ge> 1\<close> records at every read, the
  first \<open>k\<close> records the generator yields are \<open>xs ! (i mod N)\<close> for \<open>i < k\<close>: file order
  within each cycle, and the record after the \<open>N\<close>-th is the first one again.  The file
  has then been opened \<open>\<lceil>k / N\<rceil>\<close> times, once at the start of every cycle.  \<open>k\<close>
  resumptions suffice.
\<close>

theorem generator_cycles_in_file_order:
  assumes "\<forall>n. read_file w n (DATA_FILE w) = Decoded (JArr xs)" and "xs \<noteq> []"
    and "k \<le> fuel"
  shows "fst (gen_take fuel k w file_path gen_start) = map (\<lambda>i. xs ! (i mod length xs)) [0..<k] \<and>
         (\<exists>g. snd (gen_take fuel k w file_path gen_start) = Suspended g \<and>
              opens g = (k + length xs - 1) div length xs) \<and>
         (length xs < k \<longrightarrow> fst (gen_take fuel k w file_path gen_start) ! length xs = xs ! 0)"
proof -
  have p: "pending gen_start = drop (length xs) xs" by (simp add: gen_start_def)
  note c = gen_take_cycle[OF assms(1,2) p le_refl assms(3), of file_path]
  have N: "0 < length xs" using assms(2) by (cases xs) simp_all
  have o: "(if k = 0 then 0 else (length xs + k - 1) div length xs) = (k + length xs - 1) div length xs"
    using N by (auto simp: add.commute)
  show ?thesis using c N by (auto simp: gen_start_def o)
qed

theorem generator_cycles_in_file_order_witness:
  "(\<forall>n. read_file sample_world n (DATA_FILE sample_world)
         = Decoded (JArr [rec_id 1, rec_id 2, rec_id 3])) \<and>
   [rec_id 1, rec_id 2, rec_id 3] \<noteq> [] \<and> (4 :: nat) \<le> 4 \<and>
   fst (gen_take 4 4 sample_world buzz_path gen_start)
     = [rec_id 1, rec_id 2, rec_id 3, rec_id 1] \<and>
   (\<exists>g. snd (gen_take 4 4 sample_world buzz_path gen_start) = Suspended g \<and> opens g = 2) \<and>
   fst (gen_take 4 4 sample_world buzz_path gen_start) ! 3 = rec_id 1"
proof -
  have r: "\<forall>n. read_file sample_world n (DATA_FILE sample_world)
         = Decoded (JArr [rec_id 1, rec_id 2, rec_id 3])"
    by (simp add: sample_world_def DATA_FILE_def DATA_FOLDER_def PROJECT_ROOT_def parent_def
        joinpath_def buzz_path_def)
  have ne: "[rec_id 1, rec_id 2, rec_id 3] \<noteq> []" by simp
  have u: "[0..<4] = [0, 1, 2, 3 :: nat]" by (simp add: upt_rec)
  show ?thesis
    using generator_cycles_in_file_order[OF r ne, of 4 4 buzz_path] r
    by (simp add: u)
qed

section \<open>An empty list\<close>

lemma gen_take_empty:
  assumes "\<forall>n. read_file w n (DATA_FILE w) = Decoded (JArr [])"
  shows "pending g = [] \<Longrightarrow>
         gen_take fuel (Suc k) w file_path g
           = ([], Spinning \<lparr>opens = opens g + fuel, pending = []\<rparr>)"
proof (induction fuel arbitrary: g)
  case 0
  then show ?case by simp
next
  case (Suc fuel)
  have step: "generate_messages w file_path g = Turn \<lparr>opens = Suc (opens g), pending = []\<rparr>"
    using Suc.prems assms by (simp add: generate_messages_def)
  show ?case
    using Suc.IH[of "\<lparr>opens = Suc (opens g), pending = []\<rparr>"] by (simp add: step)
qed

lemma main_loop_empty:
  assumes "\<forall>n. read_file w n (DATA_FILE w) = Decoded (JArr [])"
  shows "pending (gen st) = [] \<Longrightarrow>
         main_loop n w topic interval_secs st
           = Running (st\<lparr>gen := \<lparr>opens = opens (gen st) + n, pending = []\<rparr>\<rparr>)"
proof (induction n arbitrary: st)
  case 0
  then show ?case by simp
next
  case (Suc n)
  have step: "for_turn w topic interval_secs st
                = Next (st\<lparr>gen := \<lparr>opens = Suc (opens (gen st)), pending = []\<rparr>\<rparr>)"
    using Suc.prems assms by (simp add: for_turn_def generate_messages_def)
  show ?case
    using Suc.IH[of "st\<lparr>gen := \<lparr>opens = Suc (opens (gen st)), pending = []\<rparr>\<rparr>"]
    by (simp add: step)
qed

text \<open>
  Claim C10.  For a file that holds the empty list at every read, the generator yields
  nothing and does not return, however long it runs: after \<open>fuel\<close> resumptions it has
  opened the file \<open>fuel\<close> times and still has nothing to yield.  The loop of \<^verbatim>\<open>main\<close> is
  therefore still running after any number of passes, has sent nothing and has not closed
  the producer.
\<close>

theorem empty_list_never_yields:
  assumes "\<forall>n. read_file w n (DATA_FILE w) = Decoded (JArr [])"
    and "startup w = Inr (topic, interval_secs, st)"
  shows "gen_take fuel (Suc k) w file_path gen_start
           = ([], Spinning \<lparr>opens = fuel, pending = []\<rparr>) \<and>
         main n w = Running (st\<lparr>gen := \<lparr>opens = n, pending = []\<rparr>\<rparr>) \<and>
         sent (final (main n w)) = [] \<and> closes (final (main n w)) = 0"
proof -
  have g: "gen st = gen_start" and s: "sent st = []" and c: "closes st = 0"
    using startup_Inr[OF assms(2)] by simp_all
  have a: "gen_take fuel (Suc k) w file_path gen_start
           = ([], Spinning \<lparr>opens = fuel, pending = []\<rparr>)"
    using gen_take_empty[OF assms(1), of gen_start fuel k file_path] by (simp add: gen_start_def)
  have b: "main n w = Running (st\<lparr>gen := \<lparr>opens = n, pending = []\<rparr>\<rparr>)"
    using main_loop_empty[OF assms(1), of st n topic interval_secs] g assms(2)
    by (simp add: main_def gen_start_def)
  show ?thesis using a b s c by simp
qed

theorem empty_list_never_yields_witness:
  "(\<forall>n. read_file empty_list_world n (DATA_FILE empty_list_world) = Decoded (JArr [])) \<and>
   gen_take 7 1 empty_list_world buzz_path gen_start
      = ([], Spinning \<lparr>opens = 7, pending = []\<rparr>) \<and>
   sent (final (main 7 empty_list_world)) = [] \<and>
   closes (final (main 7 empty_list_world)) = 0 \<and>
   gen (final (main 7 empty_list_world)) = \<lparr>opens = 7, pending = []\<rparr>"
proof -
  have r: "\<forall>n. read_file empty_list_world n (DATA_FILE empty_list_world) = Decoded (JArr [])"
    by (simp add: empty_list_world_def sample_defs)
  have s: "startup empty_list_world = Inr (ascii ''unknown_topic'', 1,
      \<lparr>gen = gen_start, message_count = 0, start_time = 0, ticks = 1, sent = [],
       slept = 0, closes = 0,
       logs = [Info_START, Info_topic (ascii ''unknown_topic''), Info_interval 1,
               Info_starting (ascii ''unknown_topic'')]\<rparr>)"
    by (simp add: startup_def Let_def empty_list_world_def sample_defs)
  show ?thesis
    using empty_list_never_yields[OF r s, of 7 0 buzz_path 7] r by simp
qed

section \<open>The path argument of the generator\<close>

lemma gen_except_path: "event_of (gen_except p e) = event_of (gen_except q e)"
  by (cases e) simp_all

lemma generate_messages_path:
  "event_of (generate_messages w p g) = event_of (generate_messages w q g)"
proof (cases "pending g")
  case Nil
  show ?thesis
  proof (cases "read_file w (opens g) (DATA_FILE w)")
    case (Decoded json_data)
    show ?thesis
    proof (cases "is_list json_data")
      case True
      then obtain xs where "json_data = JArr xs" by (cases json_data) auto
      then show ?thesis using Nil Decoded by (cases xs) (simp_all add: generate_messages_def)
    next
      case False
      then show ?thesis
        using Nil Decoded by (simp add: generate_messages_not_list)
    qed
  next
    case (ReadError e)
    then show ?thesis using Nil by (simp add: generate_messages_def gen_except_path)
  qed
next
  case (Cons x rest)
  then show ?thesis by (simp add: generate_messages_def)
qed

lemma gen_take_path:
  "fst (gen_take fuel k w p g) = fst (gen_take fuel k w q g) \<and>
   end_of (snd (gen_take fuel k w p g)) = end_of (snd (gen_take fuel k w q g))"
proof (induction fuel k w p g rule: gen_take.induct)
  case (1 fuel w file_path g)
  show ?case by (simp add: gen_take_zero)
next
  case (2 k w file_path g)
  show ?case by simp
next
  case (3 fuel k w file_path g)
  have e: "event_of (generate_messages w file_path g) = event_of (generate_messages w q g)"
    by (rule generate_messages_path)
  show ?case
  proof (cases "generate_messages w file_path g")
    case (Yield x g')
    with e have "generate_messages w q g = Yield x g'"
      by (cases "generate_messages w q g") simp_all
    with Yield 3(1)[OF Yield] show ?thesis by simp
  next
    case (Turn g')
    with e have "generate_messages w q g = Turn g'"
      by (cases "generate_messages w q g") simp_all
    with Turn 3(3)[OF Turn] show ?thesis by simp
  next
    case (Raise ex ls)
    with e obtain ls' where "generate_messages w q g = Raise ex ls'"
      by (cases "generate_messages w q g") simp_all
    with Raise show ?thesis by simp
  qed
qed

lemma generate_messages_world:
  assumes "\<forall>n. read_file w' n (DATA_FILE w') = read_file w n (DATA_FILE w)"
  shows "generate_messages w' p g = generate_messages w p g"
  using assms by (simp add: generate_messages_def split: list.splits)

lemma gen_take_world:
  assumes "\<forall>n. read_file w' n (DATA_FILE w') = read_file w n (DATA_FILE w)"
  shows "gen_take fuel k w' p g = gen_take fuel k w p g"
proof (induction fuel arbitrary: k g)
  case 0
  show ?case by (cases k) simp_all
next
  case (Suc fuel)
  show ?case
  proof (cases k)
    case 0
    then show ?thesis by simp
  next
    case (Suc k')
    show ?thesis
      unfolding Suc gen_take.simps generate_messages_world[OF assms]
      by (simp add: Suc.IH split: gen_event.splits)
  qed
qed

text \<open>
  Claim C9.  The generator reads \<open>DATA_FILE\<close> whatever path it is given: the records it
  yields and the way it ends are the same for any two path arguments, and the same in any
  two worlds whose \<open>DATA_FILE\<close> reads agree.  Only the reports differ: the messages for a
  missing file and for a decoding error carry the path argument.
\<close>

theorem generator_ignores_file_path:
  "fst (gen_take fuel k w p g) = fst (gen_take fuel k w q g) \<and>
   end_of (snd (gen_take fuel k w p g)) = end_of (snd (gen_take fuel k w q g)) \<and>
   ((\<forall>n. read_file w' n (DATA_FILE w') = read_file w n (DATA_FILE w)) \<longrightarrow>
      gen_take fuel k w' p g = gen_take fuel k w p g) \<and>
   (pending g = [] \<and> read_file w (opens g) (DATA_FILE w) = ReadError FileNotFoundError \<longrightarrow>
      generate_messages w p g = Raise (SystemExit 1) [Error_file_not_found p]) \<and>
   (pending g = [] \<and> read_file w (opens g) (DATA_FILE w) = ReadError JSONDecodeError \<longrightarrow>
      generate_messages w p g = Raise (SystemExit 2) [Error_invalid_json p JSONDecodeError])"
  using gen_take_path[of fuel k w p g q] gen_take_world[of w' w fuel k p g]
  by (simp add: generate_messages_def)

theorem generator_ignores_file_path_witness:
  "fst (gen_take 4 4 sample_world other_path gen_start)
     = fst (gen_take 4 4 sample_world buzz_path gen_start) \<and>
   fst (gen_take 4 4 sample_world other_path gen_start)
     = [rec_id 1, rec_id 2, rec_id 3, rec_id 1] \<and>
   (\<forall>n. read_file other_files_world n (DATA_FILE other_files_world)
         = read_file sample_world n (DATA_FILE sample_world)) \<and>
   gen_take 4 4 other_files_world other_path gen_start
     = gen_take 4 4 sample_world other_path gen_start \<and>
   pending gen_start = [] \<and>
   read_file no_file_world (opens gen_start) (DATA_FILE no_file_world)
     = ReadError FileNotFoundError \<and>
   generate_messages no_file_world other_path gen_start
     = Raise (SystemExit 1) [Error_file_not_found other_path]"
proof -
  have a: "pending gen_start = []" by (simp add: gen_start_def)
  have b: "read_file no_file_world (opens gen_start) (DATA_FILE no_file_world)
     = ReadError FileNotFoundError"
    by (simp add: no_file_world_def sample_defs)
  have c: "fst (gen_take 4 4 sample_world buzz_path gen_start)
     = [rec_id 1, rec_id 2, rec_id 3, rec_id 1]"
    by (simp add: numeral_eq_Suc generate_messages_def sample_defs)
  have d: "\<forall>n. read_file other_files_world n (DATA_FILE other_files_world)
         = read_file sample_world n (DATA_FILE sample_world)"
    by (simp add: other_files_world_def sample_defs)
  show ?thesis
    using generator_ignores_file_path[of 4 4 sample_world other_path gen_start buzz_path
        other_files_world]
      generator_ignores_file_path[of 0 0 no_file_world other_path gen_start buzz_path
        no_file_world] a b c d
    by simp
qed

section \<open>Exceptions in the loop\<close>












section \<open>Throughput snapshots\<close>

lemma sleep_snapshots:
  "sleep w interval_secs st = Next st' \<or> sleep w interval_secs st = Raised e st' \<Longrightarrow>
   snapshots st' = snapshots st"
  by (auto simp: sleep_def snapshots_def split: if_splits outcome.splits)

lemma loop_body_snapshots:
  assumes "loop_body w topic interval_secs x st = Next st' \<or>
           loop_body w topic interval_secs x st = Raised e st'"
    and "producer_send w (length (sent st)) = Returns"
  shows "snapshots st' = snapshots st @
           (if Suc (message_count st) mod 10 = 0 \<and> time_time w (Suc (ticks st)) \<noteq> start_time st
            then [(Suc (message_count st), time_time w (Suc (ticks st)) - start_time st,
                   of_nat (Suc (message_count st)) /
                     (time_time w (Suc (ticks st)) - start_time st))]
            else [])"
  using assms
  by (auto simp: loop_body_def Let_def log_def snapshots_def map_filter_def
      split: if_splits dest!: sleep_snapshots)

lemma ten: "(10 :: nat) = Suc (Suc (Suc (Suc (Suc (Suc (Suc (Suc (Suc (Suc 0)))))))))"
  by simp

lemma startup_stopped:
  "startup stopped_clock_world = Inr (ascii ''unknown_topic'', 1,
      \<lparr>gen = gen_start, message_count = 0, start_time = 1730000000, ticks = 1, sent = [],
       slept = 0, closes = 0,
       logs = [Info_START, Info_topic (ascii ''unknown_topic''), Info_interval 1,
               Info_starting (ascii ''unknown_topic'')]\<rparr>)"
  by (simp add: startup_def Let_def stopped_clock_world_def sample_defs)

text \<open>
  Claim C5 asks for a snapshot at every tenth message.  The throughput is computed by an
  unguarded division (\<^verbatim>\<open>message_count / elapsed_time\<close>): in a run whose clock reads, after
  the tenth send, what it read when the loop started, \<^verbatim>\<open>elapsed_time\<close> is 0 and the division
  raises \<^verbatim>\<open>ZeroDivisionError\<close>.  The count has reached 10, no snapshot is logged, the
  exception is reported by \<^verbatim>\<open>except Exception\<close>, the producer is closed and \<^verbatim>\<open>main\<close>
  returns.  In every other pass the snapshot is logged exactly at the multiples of ten,
  with the count divided by the elapsed time (\<open>loop_body_snapshots\<close>).
\<close>

theorem tenth_message_without_snapshot:
  "main 10 stopped_clock_world = Ended
      \<lparr>gen = \<lparr>opens = 4, pending = [rec_id 2, rec_id 3]\<rparr>, message_count = 10,
       start_time = 1730000000, ticks = 21,
       sent =
         [(ascii ''unknown_topic'', rec_id 1),
          (ascii ''unknown_topic'', rec_id 2),
          (ascii ''unknown_topic'', rec_id 3),
          (ascii ''unknown_topic'', rec_id 1),
          (ascii ''unknown_topic'', rec_id 2),
          (ascii ''unknown_topic'', rec_id 3),
          (ascii ''unknown_topic'', rec_id 1),
          (ascii ''unknown_topic'', rec_id 2),
          (ascii ''unknown_topic'', rec_id 3),
          (ascii ''unknown_topic'', rec_id 1)],
       slept = 9, closes = 1,
       logs =
         [Info_START,
          Info_topic (ascii ''unknown_topic''),
          Info_interval 1,
          Info_starting (ascii ''unknown_topic''),
          Info_sent 1 (ascii ''unknown_topic'') 0 (rec_id 1),
          Info_sent 2 (ascii ''unknown_topic'') 0 (rec_id 2),
          Info_sent 3 (ascii ''unknown_topic'') 0 (rec_id 3),
          Info_sent 4 (ascii ''unknown_topic'') 0 (rec_id 1),
          Info_sent 5 (ascii ''unknown_topic'') 0 (rec_id 2),
          Info_sent 6 (ascii ''unknown_topic'') 0 (rec_id 3),
          Info_sent 7 (ascii ''unknown_topic'') 0 (rec_id 1),
          Info_sent 8 (ascii ''unknown_topic'') 0 (rec_id 2),
          Info_sent 9 (ascii ''unknown_topic'') 0 (rec_id 3),
          Info_sent 10 (ascii ''unknown_topic'') 0 (rec_id 1),
          Error_production ZeroDivisionError, Info_closed, Info_END]\<rparr> None \<and>
   snapshots (final (main 10 stopped_clock_world)) = []"
proof -
  have m: "main n stopped_clock_world = main_loop n stopped_clock_world (ascii ''unknown_topic'') 1
      \<lparr>gen = gen_start, message_count = 0, start_time = 1730000000, ticks = 1, sent = [],
       slept = 0, closes = 0,
       logs = [Info_START, Info_topic (ascii ''unknown_topic''), Info_interval 1,
               Info_starting (ascii ''unknown_topic'')]\<rparr>" for n
    by (simp add: main_def startup_stopped)
  show ?thesis
    unfolding m unfolding ten
    by (simp add: for_turn_def generate_messages_def loop_body_def
      sleep_def Let_def stopped_clock_world_def sample_defs snapshots_def map_filter_def)
qed

end
